theory Spec2Isabelle
  imports Complex_Main "HOL-Library.Sublist" "HOL-Library.Multiset"
begin

section \<open>JavaScript values and objects\<close>

text \<open>
  The dashboard is TypeScript running on JavaScript values.  A field of a student
  record holds a number, a string or a boolean; a property that an object does not have
  reads as \<open>undefined\<close>.  Finite numbers are modelled by the real number they denote
  (so \<open>+0\<close> and \<open>-0\<close>, which \<open>===\<close> identifies, are one value); \<open>NaN\<close>, which a
  cleared numeric input produces, is a value of its own because \<open>NaN !== NaN\<close>.
\<close>

datatype jsval = JNumber real | JNaN | JString string | JBoolean bool | JUndefined

text \<open>The operator \<open>===\<close> on primitive values; \<open>a !== b\<close> is its negation.\<close>

fun strict_eq :: "jsval \<Rightarrow> jsval \<Rightarrow> bool" where
  "strict_eq (JNumber a) (JNumber b) = (a = b)"
| "strict_eq (JString a) (JString b) = (a = b)"
| "strict_eq (JBoolean a) (JBoolean b) = (a = b)"
| "strict_eq JUndefined JUndefined = True"
| "strict_eq _ _ = False"

text \<open>
  An object with string keys is an association list in property (insertion) order;
  \<open>Object.keys\<close> lists the keys in that order and a property read returns the bound
  value, if any.
\<close>

type_synonym 'v jsobject = "(string \<times> 'v) list"

definition Object_keys :: "'v jsobject \<Rightarrow> string list" where
  "Object_keys obj = map fst obj"

definition property :: "'v jsobject \<Rightarrow> string \<Rightarrow> 'v option" where
  "property obj key = map_of obj key"

text \<open>Reading a property of an object of primitive values: \<open>obj[key]\<close>.\<close>

definition get_field :: "jsval jsobject \<Rightarrow> string \<Rightarrow> jsval" where
  "get_field obj key = (case property obj key of None \<Rightarrow> JUndefined | Some v \<Rightarrow> v)"

section \<open>The student record (\<open>StudentInput\<close>)\<close>

datatype fieldtype = TNumber | TString | TBoolean | TOneOf "string list"

fun has_type :: "jsval \<Rightarrow> fieldtype \<Rightarrow> bool" where
  "has_type (JNumber _) TNumber = True"
| "has_type JNaN TNumber = True"
| "has_type (JString _) TString = True"
| "has_type (JBoolean _) TBoolean = True"
| "has_type (JString s) (TOneOf opts) = (s \<in> set opts)"
| "has_type _ _ = False"

text \<open>The fields of the interface \<open>StudentInput\<close>, in declaration order.\<close>

definition StudentInput_fields :: "(string \<times> fieldtype) list" where
  "StudentInput_fields =
    [(''id_student'', TNumber),
     (''code_module'', TString),
     (''code_presentation'', TString),
     (''gender'', TOneOf [''M'', ''F'']),
     (''region'', TString),
     (''highest_education'', TString),
     (''imd_band'', TString),
     (''age_band'', TString),
     (''num_of_prev_attempts'', TNumber),
     (''studied_credits'', TNumber),
     (''disability'', TOneOf [''Y'', ''N'']),
     (''completed_course'', TBoolean),
     (''withdrawal_status'', TBoolean),
     (''total_clicks'', TNumber),
     (''avg_clicks_per_session'', TNumber),
     (''click_variability'', TNumber),
     (''total_sessions'', TNumber),
     (''first_access_day'', TNumber),
     (''last_access_day'', TNumber),
     (''active_days'', TNumber),
     (''engagement_duration'', TNumber),
     (''daily_engagement_rate'', TNumber),
     (''avg_assessment_score'', TNumber),
     (''score_consistency'', TNumber),
     (''total_assessments'', TNumber),
     (''first_submission'', TNumber),
     (''last_submission'', TNumber),
     (''banked_assessments'', TNumber)]"

definition StudentInput_keys :: "string list" where
  "StudentInput_keys = map fst StudentInput_fields"

type_synonym StudentInput = "jsval jsobject"

text \<open>
  A value of type \<open>StudentInput\<close>: an object whose properties are exactly the declared
  fields, each holding a value of its declared type.
\<close>

definition is_StudentInput :: "StudentInput \<Rightarrow> bool" where
  "is_StudentInput obj \<longleftrightarrow>
     distinct (Object_keys obj) \<and>
     set (Object_keys obj) = set StudentInput_keys \<and>
     list_all (\<lambda>(key, t). has_type (get_field obj key) t) StudentInput_fields"

section \<open>Changed-field tracking in \<open>WhatIfInputForm\<close>\<close>

text \<open>
  The effect that tracks changed fields:
  \<^verbatim>\<open>
    const changed: string[] = [];
    Object.keys(formData).forEach(key => {
      if (formData[key] !== originalData[key]) { changed.push(key); }
    });
  \<close>
  The loop is a left fold over the keys of \<open>formData\<close> that appends to \<open>changed\<close>.
\<close>

definition trackChangedFields :: "StudentInput \<Rightarrow> StudentInput \<Rightarrow> string list" where
  "trackChangedFields formData originalData =
     fold (\<lambda>key changed.
             if \<not> strict_eq (get_field formData key) (get_field originalData key)
             then changed @ [key] else changed)
          (Object_keys formData) []"

section \<open>Responses of the prediction service (\<open>types\<close>)\<close>

datatype outcome = Distinction | Pass | Fail | Withdrawn

record PredictionResponse =
  prediction :: outcome
  probabilities :: "real jsobject"
  confidence :: real
  student_id :: real

record FeatureImportance =
  feature :: string
  importance :: real
  direction :: string
  shap_value :: real
  lime_value :: real

text \<open>
  The numbers of a response are finite values read from JSON; they are modelled by the
  real numbers they denote, and the rounding of a floating-point subtraction is not
  modelled.  The interface declares every part of an explanation as present, but the components
  guard each read with \<open>?.\<close>, so a part that the service left out is \<open>None\<close> here.
\<close>

record lime_part =
  top_features :: "real jsobject option"
  intercept :: real
  local_prediction :: real

record lime_explanation_part =
  shap :: "real jsobject"
  lime :: "lime_part option"
  plots_shap :: "string jsobject"
  plots_lime :: "string jsobject"

record ExplanationResponse =
  expl_student_id :: real
  expl_prediction :: outcome
  shap_values :: "real jsobject option"
  lime_explanation :: "lime_explanation_part option"
  feature_importance :: "FeatureImportance list option"

section \<open>Array and string helpers of the language\<close>

text \<open>
  \<open>feature.replace(/_/g, ' ').toUpperCase()\<close> on the ASCII feature names of the
  service: every underscore becomes a space, then every lower-case letter is raised.
\<close>

definition toUpperCase_char :: "char \<Rightarrow> char" where
  "toUpperCase_char c =
     (let n = (of_char c :: nat) in if 97 \<le> n \<and> n \<le> 122 then char_of (n - 32) else c)"

definition feature_label :: "string \<Rightarrow> string" where
  "feature_label feat =
     map toUpperCase_char (map (\<lambda>c. if c = CHR ''_'' then CHR '' '' else c) feat)"

text \<open>\<open>obj[feature] || 0\<close> on a mapping to numbers: a missing or zero value gives 0.\<close>

definition or_zero :: "real option \<Rightarrow> real" where
  "or_zero v = (case v of None \<Rightarrow> 0 | Some x \<Rightarrow> if x = 0 then 0 else x)"

text \<open>
  \<open>new Set(xs)\<close> followed by \<open>forEach\<close>: the elements in order of first insertion,
  each once.
\<close>

definition Set_of :: "'a list \<Rightarrow> 'a list" where
  "Set_of xs = fold (\<lambda>x s. if x \<in> set s then s else s @ [x]) xs []"

text \<open>
  \<open>Array.prototype.sort(compare)\<close>: a stable sort that puts \<open>a\<close> before \<open>b\<close> when
  \<open>compare(a, b) < 0\<close> and keeps the input order of elements that compare equal.
\<close>

fun insert_sorted :: "('a \<Rightarrow> 'a \<Rightarrow> real) \<Rightarrow> 'a \<Rightarrow> 'a list \<Rightarrow> 'a list" where
  "insert_sorted compare x [] = [x]"
| "insert_sorted compare x (y # ys) =
     (if compare x y \<le> 0 then x # y # ys else y # insert_sorted compare x ys)"

definition Array_sort :: "('a \<Rightarrow> 'a \<Rightarrow> real) \<Rightarrow> 'a list \<Rightarrow> 'a list" where
  "Array_sort compare xs = foldr (insert_sorted compare) xs []"

section \<open>Comparison rows (\<open>ComparisonView.getComparisonData\<close>)\<close>

record ComparisonRow =
  row_feature :: string
  original :: real
  modified :: real
  change :: real
  isChanged :: bool

definition getComparisonData ::
  "ExplanationResponse option \<Rightarrow> ExplanationResponse option \<Rightarrow> string list
     \<Rightarrow> ComparisonRow list" where
  "getComparisonData originalExplanation modifiedExplanation changedFields =
     (case Option.bind originalExplanation shap_values of
        None \<Rightarrow> []
      | Some originalShap \<Rightarrow>
         (case Option.bind modifiedExplanation shap_values of
            None \<Rightarrow> []
          | Some modifiedShap \<Rightarrow>
             (let allFeatures = Set_of (Object_keys originalShap @ Object_keys modifiedShap);
                  data = map (\<lambda>feat.
                           let originalValue = or_zero (property originalShap feat);
                               modifiedValue = or_zero (property modifiedShap feat);
                               change = modifiedValue - originalValue
                           in \<lparr>row_feature = feature_label feat,
                               original = originalValue,
                               modified = modifiedValue,
                               change = change,
                               isChanged = (feat \<in> set changedFields)\<rparr>) allFeatures
              in take 10 (Array_sort (\<lambda>a b. \<bar>change b\<bar> - \<bar>change a\<bar>) data))))"

section \<open>Single-sided rankings (\<open>ExplanationChart\<close>)\<close>

record ChartRow =
  chart_feature :: string
  "value" :: real
  absValue :: real





section \<open>The API client (\<open>api/index.ts\<close>)\<close>

text \<open>
  What the HTTP library hands to the response interceptor when a call fails: the
  response, if the server answered, with its status and the \<open>detail\<close> of its body, and
  the library's own error code otherwise.  A JSON body \<open>null\<close> has no properties to
  read.
\<close>

datatype response_body = Body "string option" | NullBody

record AxiosResponse =
  status :: nat
  data :: response_body

record AxiosError =
  response :: "AxiosResponse option"
  code :: "string option"
  message :: string

text \<open>
  A thrown value: an \<open>Error\<close> made by the client with its message, a \<open>TypeError\<close> of
  the runtime, or the library's error passed on unchanged.
\<close>

datatype thrown = Error string | TypeError string | Rejected AxiosError

text \<open>\<open>err instanceof Error ? err.message : fallback\<close>; all three kinds are errors.\<close>

fun message_or :: "string \<Rightarrow> thrown \<Rightarrow> string" where
  "message_or fallback (Error m) = m"
| "message_or fallback (TypeError m) = m"
| "message_or fallback (Rejected e) = message e"

text \<open>
  The error branch of the response interceptor.  \<open>detail || 'Invalid input data'\<close>
  takes the fallback for a missing or empty detail.
\<close>

definition cannot_read_detail :: string where
  "cannot_read_detail = ''Cannot read properties of null (reading 'detail')''"

definition response_interceptor :: "AxiosError \<Rightarrow> thrown" where
  "response_interceptor err =
     (if map_option status (response err) = Some 422 then
        (case data (the (response err)) of
           NullBody \<Rightarrow> TypeError cannot_read_detail
         | Body detail \<Rightarrow>
             Error (''Validation Error: '' @
                    (case detail of
                       None \<Rightarrow> ''Invalid input data''
                     | Some d \<Rightarrow> if d = [] then ''Invalid input data'' else d)))
      else if map_option status (response err) = Some 500 then
        Error ''Server Error: Please try again later''
      else if code err = Some ''ECONNREFUSED'' then
        Error ''Connection Error: Backend server is not running''
      else if code err = Some ''ECONNABORTED'' then
        Error ''Timeout Error: Request took too long to complete''
      else Rejected err)"

text \<open>
  A request through the client: the outcome of the transport is either the library's
  error, which goes through the interceptor, or the response data.
\<close>

definition api_request :: "AxiosError + 'a \<Rightarrow> thrown + 'a" where
  "api_request outcome =
     (case outcome of Inl err \<Rightarrow> Inl (response_interceptor err) | Inr d \<Rightarrow> Inr d)"

text \<open>
  The service functions: \<open>try { return (await api.post(...)).data } catch (error)
  { console.error(...); throw new Error('...') }\<close>.
\<close>

record HealthResponse =
  health_status :: string
  model_loaded :: bool
  version :: string
  timestamp :: string

definition checkHealth :: "AxiosError + HealthResponse \<Rightarrow> thrown + HealthResponse" where
  "checkHealth outcome =
     (case api_request outcome of
        Inl error \<Rightarrow> Inl (Error ''Failed to check API health'')
      | Inr d \<Rightarrow> Inr d)"

definition predictStudentPerformance ::
  "AxiosError + PredictionResponse \<Rightarrow> thrown + PredictionResponse" where
  "predictStudentPerformance outcome =
     (case api_request outcome of
        Inl error \<Rightarrow> Inl (Error ''Failed to predict student performance'')
      | Inr d \<Rightarrow> Inr d)"

definition explainPrediction ::
  "AxiosError + ExplanationResponse \<Rightarrow> thrown + ExplanationResponse" where
  "explainPrediction outcome =
     (case api_request outcome of
        Inl error \<Rightarrow> Inl (Error ''Failed to generate explanation'')
      | Inr d \<Rightarrow> Inr d)"

section \<open>The what-if page (\<open>WhatIfAnalysis\<close>)\<close>

text \<open>
  The component state, with the one slot of the debounced prediction function: the
  arguments of its latest invocation that has not run yet.
\<close>

record WhatIfAnalysis =
  originalData :: "StudentInput option"
  originalPrediction :: "PredictionResponse option"
  modifiedPrediction :: "PredictionResponse option"
  originalExplanation :: "ExplanationResponse option"
  modifiedExplanation :: "ExplanationResponse option"
  isLoading :: bool
  error :: "string option"
  changedFields :: "string list"
  pendingPredict :: "(StudentInput \<times> bool) option"

definition initial :: WhatIfAnalysis where
  "initial = \<lparr>originalData = None, originalPrediction = None, modifiedPrediction = None,
              originalExplanation = None, modifiedExplanation = None, isLoading = False,
              error = None, changedFields = [], pendingPredict = None\<rparr>"

text \<open>
  \<open>Promise.all\<close> of two calls fulfils with both values when both fulfil and rejects
  with the reason of whichever call rejects first.
\<close>

datatype settled_first = PredictFirst | ExplainFirst

fun Promise_all :: "settled_first \<Rightarrow> thrown + 'a \<Rightarrow> thrown + 'b \<Rightarrow> thrown + ('a \<times> 'b)" where
  "Promise_all ord (Inr a) (Inr b) = Inr (a, b)"
| "Promise_all ord (Inl e) (Inr b) = Inl e"
| "Promise_all ord (Inr a) (Inl e) = Inl e"
| "Promise_all PredictFirst (Inl e1) (Inl e2) = Inl e1"
| "Promise_all ExplainFirst (Inl e1) (Inl e2) = Inl e2"

text \<open>
  The body of \<open>debouncedPredict(data, isModified)\<close> once the debounce delay has
  elapsed, given how the two requests end: \<open>try\<close> stores the pair of results,
  \<open>catch\<close> stores the message, \<open>finally\<close> clears the loading flag.
\<close>

definition debouncedPredict ::
  "StudentInput \<Rightarrow> bool \<Rightarrow> settled_first \<Rightarrow> AxiosError + PredictionResponse
     \<Rightarrow> AxiosError + ExplanationResponse \<Rightarrow> WhatIfAnalysis \<Rightarrow> WhatIfAnalysis" where
  "debouncedPredict d isModified ord predictOutcome explainOutcome st =
     (let st' =
        (case Promise_all ord (predictStudentPerformance predictOutcome)
                (explainPrediction explainOutcome) of
           Inr (predictionResponse, explanationResponse) \<Rightarrow>
             if isModified
             then st\<lparr>modifiedPrediction := Some predictionResponse,
                     modifiedExplanation := Some explanationResponse\<rparr>
             else st\<lparr>originalPrediction := Some predictionResponse,
                     originalExplanation := Some explanationResponse,
                     originalData := Some d\<rparr>
         | Inl err \<Rightarrow> st\<lparr>error := Some (message_or ''An error occurred'' err)\<rparr>)
      in st'\<lparr>isLoading := False\<rparr>)"

text \<open>
  \<open>handleModifiedDataChange\<close>: calling the debounced function replaces its pending
  invocation.
\<close>

definition handleModifiedDataChange ::
  "StudentInput \<Rightarrow> string list \<Rightarrow> WhatIfAnalysis \<Rightarrow> WhatIfAnalysis" where
  "handleModifiedDataChange d changedFieldsList st =
     (let st1 = st\<lparr>changedFields := changedFieldsList\<rparr>
      in if originalData st \<noteq> None
         then st1\<lparr>isLoading := True, pendingPredict := Some (d, True)\<rparr>
         else st1)"

definition handleReset :: "WhatIfAnalysis \<Rightarrow> WhatIfAnalysis" where
  "handleReset st =
     st\<lparr>originalData := None, originalPrediction := None, modifiedPrediction := None,
        originalExplanation := None, modifiedExplanation := None, changedFields := [],
        error := None\<rparr>"

section \<open>Example data\<close>

text \<open>The default values of the dashboard's student form (\<open>StudentInputForm\<close>).\<close>

definition default_student :: StudentInput where
  "default_student =
    [(''id_student'', JNumber 12345),
     (''code_module'', JString ''AAA''),
     (''code_presentation'', JString ''2013J''),
     (''gender'', JString ''M''),
     (''region'', JString ''East Anglian Region''),
     (''highest_education'', JString ''HE Qualification''),
     (''imd_band'', JString ''90-100%''),
     (''age_band'', JString ''35-55''),
     (''num_of_prev_attempts'', JNumber 0),
     (''studied_credits'', JNumber 60),
     (''disability'', JString ''N''),
     (''completed_course'', JBoolean True),
     (''withdrawal_status'', JBoolean False),
     (''total_clicks'', JNumber 150),
     (''avg_clicks_per_session'', JNumber 25),
     (''click_variability'', JNumber 12),
     (''total_sessions'', JNumber 8),
     (''first_access_day'', JNumber 5),
     (''last_access_day'', JNumber 45),
     (''active_days'', JNumber 25),
     (''engagement_duration'', JNumber 120),
     (''daily_engagement_rate'', JNumber 0.75),
     (''avg_assessment_score'', JNumber 85),
     (''score_consistency'', JNumber 0.8),
     (''total_assessments'', JNumber 4),
     (''first_submission'', JNumber 10),
     (''last_submission'', JNumber 40),
     (''banked_assessments'', JNumber 1)]"

text \<open>\<open>setValue(fieldName, v)\<close> of the form library, on the form data.\<close>

definition setValue :: "string \<Rightarrow> jsval \<Rightarrow> StudentInput \<Rightarrow> StudentInput" where
  "setValue fieldName v obj = map (\<lambda>(key, old). if key = fieldName then (key, v) else (key, old)) obj"

text \<open>
  The default record after two edits: \<open>total_clicks\<close> raised to 200 and \<open>gender\<close>
  set to the value it already has.
\<close>

definition edited_student :: StudentInput where
  "edited_student = setValue ''gender'' (JString ''M'') (setValue ''total_clicks'' (JNumber 200) default_student)"

text \<open>
  Two explanations of the service.  The feature-importance list of the first is not in
  descending order of importance.
\<close>

definition baseline_explanation :: ExplanationResponse where
  "baseline_explanation =
     \<lparr>expl_student_id = 12345, expl_prediction = Pass,
      shap_values = Some [(''total_clicks'', 0.25), (''avg_assessment_score'', 0.5)],
      lime_explanation = Some
        \<lparr>shap = [(''total_clicks'', 0.25), (''avg_assessment_score'', 0.5)],
         lime = Some \<lparr>top_features = Some [(''total_clicks'', 0.125),
                                           (''avg_assessment_score'', - 0.5)],
                      intercept = 0.5, local_prediction = 0.75\<rparr>,
         plots_shap = [], plots_lime = []\<rparr>,
      feature_importance = Some
        [\<lparr>feature = ''total_clicks'', importance = 0.25, direction = ''positive'',
          shap_value = 0.25, lime_value = 0.125\<rparr>,
         \<lparr>feature = ''avg_assessment_score'', importance = 0.5, direction = ''positive'',
          shap_value = 0.5, lime_value = - 0.5\<rparr>]\<rparr>"

definition modified_explanation :: ExplanationResponse where
  "modified_explanation =
     baseline_explanation
       \<lparr>shap_values := Some [(''total_clicks'', 0.75), (''avg_assessment_score'', 0.5),
                             (''active_days'', - 1)]\<rparr>"

definition no_shap_explanation :: ExplanationResponse where
  "no_shap_explanation = baseline_explanation\<lparr>shap_values := None\<rparr>"

text \<open>Two failed requests, a prediction and a page state that has a baseline.\<close>

definition validation_failure :: AxiosError where
  "validation_failure =
     \<lparr>response = Some \<lparr>status = 422, data = Body (Some ''score out of range'')\<rparr>,
      code = Some ''ERR_BAD_REQUEST'',
      message = ''Request failed with status code 422''\<rparr>"

definition server_fault :: AxiosError where
  "server_fault =
     \<lparr>response = Some \<lparr>status = 500, data = Body None\<rparr>,
      code = Some ''ERR_BAD_RESPONSE'',
      message = ''Request failed with status code 500''\<rparr>"

definition example_prediction :: PredictionResponse where
  "example_prediction =
     \<lparr>prediction = Pass,
      probabilities = [(''Distinction'', 0.125), (''Pass'', 0.5), (''Fail'', 0.25),
                       (''Withdrawn'', 0.125)],
      confidence = 0.5, student_id = 12345\<rparr>"

definition with_baseline :: WhatIfAnalysis where
  "with_baseline =
     initial\<lparr>originalData := Some default_student,
             originalPrediction := Some example_prediction,
             originalExplanation := Some baseline_explanation,
             modifiedPrediction := Some example_prediction,
             modifiedExplanation := Some modified_explanation,
             isLoading := True,
             changedFields := [''total_clicks'']\<rparr>"

section \<open>Facts about the helpers\<close>

lemma fold_push_filter:
  "fold (\<lambda>key changed. if P key then changed @ [key] else changed) keys acc = acc @ filter P keys"
  by (induction keys arbitrary: acc) auto

lemma trackChangedFields_filter:
  "trackChangedFields edited baseline =
     filter (\<lambda>key. \<not> strict_eq (get_field edited key) (get_field baseline key))
       (Object_keys edited)"
  unfolding trackChangedFields_def by (simp add: fold_push_filter)




lemma mset_insert_sorted: "mset (insert_sorted c x ys) = add_mset x (mset ys)"
  by (induction ys) auto

lemma mset_Array_sort: "mset (Array_sort c xs) = mset xs"
  unfolding Array_sort_def by (induction xs) (auto simp: mset_insert_sorted)


lemma length_Array_sort: "length (Array_sort c xs) = length xs"
  using mset_Array_sort [of c xs] by (metis size_mset)








section \<open>Facts about the example data\<close>

lemma distinct_StudentInput_keys: "distinct StudentInput_keys"
  by code_simp

lemma keys_default: "Object_keys default_student = StudentInput_keys"
  by code_simp

lemma keys_edited: "Object_keys edited_student = StudentInput_keys"
  by code_simp

lemma is_default: "is_StudentInput default_student"
  unfolding is_StudentInput_def keys_default
  apply (simp add: distinct_StudentInput_keys)
  apply code_simp
  done

lemma is_edited: "is_StudentInput edited_student"
  unfolding is_StudentInput_def keys_edited
  apply (simp add: distinct_StudentInput_keys)
  apply code_simp
  done

lemma track_example: "trackChangedFields edited_student default_student = [''total_clicks'']"
  by code_simp

section \<open>Changed-field tracking\<close>

text \<open>
  C1.  For every pair of student records (baseline, edited), the changed-field
  computation returns exactly the names of the fields on which the two records differ
  under \<open>===\<close>, each once; the page stores that list in place of whatever changed-field
  list it held before, so a field whose edited value equals its baseline value again
  is not in the stored list.
\<close>

theorem changed_fields_exact:
  assumes "is_StudentInput edited" and "is_StudentInput baseline"
  shows "set (trackChangedFields edited baseline) =
           {key \<in> set StudentInput_keys.
              \<not> strict_eq (get_field edited key) (get_field baseline key)}
         \<and> distinct (trackChangedFields edited baseline)
         \<and> changedFields (handleModifiedDataChange edited (trackChangedFields edited baseline) st)
             = trackChangedFields edited baseline
         \<and> (\<forall>key. strict_eq (get_field edited key) (get_field baseline key) \<longrightarrow>
               key \<notin> set (changedFields
                 (handleModifiedDataChange edited (trackChangedFields edited baseline) st)))"
proof -
  have keys: "set (Object_keys edited) = set StudentInput_keys" and d: "distinct (Object_keys edited)"
    using assms(1) by (simp_all add: is_StudentInput_def)
  have 1: "set (trackChangedFields edited baseline) =
           {key \<in> set StudentInput_keys.
              \<not> strict_eq (get_field edited key) (get_field baseline key)}"
    unfolding trackChangedFields_filter using keys by auto
  have 2: "distinct (trackChangedFields edited baseline)"
    unfolding trackChangedFields_filter using d by simp
  have 3: "changedFields (handleModifiedDataChange edited cs st) = cs" for cs
    by (simp add: handleModifiedDataChange_def Let_def)
  show ?thesis using 1 2 3 by simp
qed

text \<open>
  The default record against its edited copy: only \<open>total_clicks\<close> is reported, and
  it replaces a stale entry \<open>gender\<close>.
\<close>

theorem changed_fields_exact_witness:
  "is_StudentInput edited_student \<and> is_StudentInput default_student \<and>
   set (trackChangedFields edited_student default_student) =
           {key \<in> set StudentInput_keys.
              \<not> strict_eq (get_field edited_student key) (get_field default_student key)}
   \<and> trackChangedFields edited_student default_student = [''total_clicks'']
   \<and> changedFields (handleModifiedDataChange edited_student
         (trackChangedFields edited_student default_student) (initial\<lparr>changedFields := [''gender'']\<rparr>))
       = [''total_clicks'']"
  using changed_fields_exact [OF is_edited is_default, of "initial\<lparr>changedFields := [''gender'']\<rparr>"] is_edited is_default track_example
  by simp

section \<open>Comparison rows\<close>






text \<open>
  C3.  When the baseline explanation or the modified explanation is missing, or has no
  SHAP mapping, the comparison rows are the empty list; the function has no failing
  branch.
\<close>

theorem comparison_empty_when_absent:
  assumes "Option.bind baselineExpl shap_values = None
           \<or> Option.bind modifiedExpl shap_values = None"
  shows "getComparisonData baselineExpl modifiedExpl changed = []"
  using assms by (auto simp: getComparisonData_def split: option.splits)

text \<open>A baseline explanation without SHAP mapping, and a missing modified explanation.\<close>

theorem comparison_empty_when_absent_witness:
  "(Option.bind (Some no_shap_explanation) shap_values = None
     \<or> Option.bind (Some modified_explanation) shap_values = None)
   \<and> getComparisonData (Some no_shap_explanation) (Some modified_explanation) [''total_clicks''] = []
   \<and> (Option.bind (Some baseline_explanation) shap_values = None
     \<or> Option.bind None shap_values = None)
   \<and> getComparisonData (Some baseline_explanation) None [''total_clicks''] = []"
proof -
  have h1: "Option.bind (Some no_shap_explanation) shap_values = None
     \<or> Option.bind (Some modified_explanation) shap_values = None"
    by (simp add: no_shap_explanation_def)
  have h2: "Option.bind (Some baseline_explanation) shap_values = None
     \<or> Option.bind None shap_values = None"
    by simp
  show ?thesis
    using comparison_empty_when_absent [OF h1, of "[''total_clicks'']"]
      comparison_empty_when_absent [OF h2, of "[''total_clicks'']"] h1 h2
    by blast
qed


section \<open>Single-sided rankings\<close>








section \<open>Edits without a baseline\<close>




section \<open>Errors of the API client\<close>

lemma service_failure:
  "predictStudentPerformance (Inl err) = Inl (Error ''Failed to predict student performance'')"
  "explainPrediction (Inl err) = Inl (Error ''Failed to generate explanation'')"
  "checkHealth (Inl err) = Inl (Error ''Failed to check API health'')"
  by (simp_all add: predictStudentPerformance_def explainPrediction_def checkHealth_def
        api_request_def)

lemma service_success:
  "predictStudentPerformance (Inr p) = Inr p"
  "explainPrediction (Inr e) = Inr e"
  "checkHealth (Inr h) = Inr h"
  by (simp_all add: predictStudentPerformance_def explainPrediction_def checkHealth_def
        api_request_def)

text \<open>
  C6 as stated fails: a prediction request answered with status 422 and detail
  \<open>score out of range\<close> surfaces a message that does not contain the detail.
\<close>

theorem validation_detail_not_surfaced:
  "map_option status (response validation_failure) = Some 422 \<and>
   data (the (response validation_failure)) = Body (Some ''score out of range'') \<and>
   predictStudentPerformance (Inl validation_failure)
     = Inl (Error ''Failed to predict student performance'') \<and>
   \<not> sublist ''score out of range'' ''Failed to predict student performance''"
proof -
  have "\<not> sublist ''score out of range'' ''Failed to predict student performance''"
    by code_simp
  then show ?thesis
    by (simp add: validation_failure_def service_failure)
qed

text \<open>
  C6, as the code has it.  Every failing predict, explain or health call, whatever its
  cause, surfaces the fixed message of its operation.  The detail of a 422 response is
  used verbatim only in the error that the response interceptor throws, which the
  service function catches, logs and replaces.
\<close>

theorem service_errors_generic:
  "predictStudentPerformance (Inl err)
     = Inl (Error ''Failed to predict student performance'') \<and>
   explainPrediction (Inl err) = Inl (Error ''Failed to generate explanation'') \<and>
   checkHealth (Inl err) = Inl (Error ''Failed to check API health'') \<and>
   (map_option status (response err) = Some 422 \<and>
    data (the (response err)) = Body (Some detail) \<and> detail \<noteq> []
      \<longrightarrow> response_interceptor err = Error (''Validation Error: '' @ detail))"
  by (simp add: service_failure response_interceptor_def)

theorem service_errors_generic_witness:
  "predictStudentPerformance (Inl validation_failure)
     = Inl (Error ''Failed to predict student performance'') \<and>
   explainPrediction (Inl validation_failure) = Inl (Error ''Failed to generate explanation'') \<and>
   checkHealth (Inl validation_failure) = Inl (Error ''Failed to check API health'') \<and>
   map_option status (response validation_failure) = Some 422 \<and>
   data (the (response validation_failure)) = Body (Some ''score out of range'') \<and>
   ''score out of range'' \<noteq> [] \<and>
   response_interceptor validation_failure = Error ''Validation Error: score out of range''"
proof -
  have h: "map_option status (response validation_failure) = Some 422 \<and>
    data (the (response validation_failure)) = Body (Some ''score out of range'') \<and>
    ''score out of range'' \<noteq> []"
    by (simp add: validation_failure_def)
  show ?thesis
    using service_errors_generic [of validation_failure "''score out of range''"] h by simp
qed

section \<open>Establishing a baseline and re-evaluating an edit\<close>

lemma debouncedPredict_fulfilled:
  "debouncedPredict d isModified ord (Inr p) (Inr e) st =
     (if isModified
      then st\<lparr>modifiedPrediction := Some p, modifiedExplanation := Some e, isLoading := False\<rparr>
      else st\<lparr>originalPrediction := Some p, originalExplanation := Some e,
              originalData := Some d, isLoading := False\<rparr>)"
  by (simp add: debouncedPredict_def service_success)

lemma debouncedPredict_predict_rejected:
  "debouncedPredict d isModified ord (Inl x) (Inr e) st
     = st\<lparr>error := Some ''Failed to predict student performance'', isLoading := False\<rparr>"
  by (simp add: debouncedPredict_def service_success service_failure)

lemma debouncedPredict_explain_rejected:
  "debouncedPredict d isModified ord (Inr p) (Inl y) st
     = st\<lparr>error := Some ''Failed to generate explanation'', isLoading := False\<rparr>"
  by (simp add: debouncedPredict_def service_success service_failure)

lemma debouncedPredict_both_rejected:
  "debouncedPredict d isModified ord (Inl x) (Inl y) st
     = st\<lparr>error := Some (case ord of
                           PredictFirst \<Rightarrow> ''Failed to predict student performance''
                         | ExplainFirst \<Rightarrow> ''Failed to generate explanation''),
          isLoading := False\<rparr>"
  by (cases ord) (simp_all add: debouncedPredict_def service_failure)

lemmas debouncedPredict_cases =
  debouncedPredict_fulfilled debouncedPredict_predict_rejected
  debouncedPredict_explain_rejected debouncedPredict_both_rejected

text \<open>
  C7.  Establishing a baseline (\<open>debouncedPredict(data, false)\<close>) awaits the predict
  and the explain call together.  When both succeed the record and both results are
  stored, so a page without baseline gets one.  When either call rejects, the stored
  record, predictions and explanations keep their values, whatever the other call
  returned, and the message of the call that rejected first is stored as the error.
  A page without baseline gets one only when both calls succeed.
\<close>

theorem establishBaseline_atomic:
  fixes d :: StudentInput and ord :: settled_first
    and predictOutcome :: "AxiosError + PredictionResponse"
    and explainOutcome :: "AxiosError + ExplanationResponse"
    and st :: WhatIfAnalysis
  defines "st' \<equiv> debouncedPredict d False ord predictOutcome explainOutcome st"
  shows "(\<forall>p e. predictOutcome = Inr p \<and> explainOutcome = Inr e \<longrightarrow>
            st' = st\<lparr>originalPrediction := Some p, originalExplanation := Some e,
                     originalData := Some d, isLoading := False\<rparr>) \<and>
         ((\<exists>x. predictOutcome = Inl x) \<or> (\<exists>y. explainOutcome = Inl y) \<longrightarrow>
            originalData st' = originalData st \<and>
            originalPrediction st' = originalPrediction st \<and>
            originalExplanation st' = originalExplanation st \<and>
            modifiedPrediction st' = modifiedPrediction st \<and>
            modifiedExplanation st' = modifiedExplanation st \<and>
            error st' \<noteq> None) \<and>
         ((\<exists>x. predictOutcome = Inl x) \<and> ((\<exists>e. explainOutcome = Inr e) \<or> ord = PredictFirst) \<longrightarrow>
            error st' = Some ''Failed to predict student performance'') \<and>
         ((\<exists>y. explainOutcome = Inl y) \<and> ((\<exists>p. predictOutcome = Inr p) \<or> ord = ExplainFirst) \<longrightarrow>
            error st' = Some ''Failed to generate explanation'') \<and>
         (originalData st = None \<and> originalData st' \<noteq> None \<longrightarrow>
            (\<exists>p e. predictOutcome = Inr p \<and> explainOutcome = Inr e))"
  unfolding st'_def
  by (cases predictOutcome; cases explainOutcome; cases ord)
     (auto simp: debouncedPredict_cases)

theorem establishBaseline_atomic_witness:
  "debouncedPredict default_student False PredictFirst (Inr example_prediction)
      (Inr baseline_explanation) initial
     = initial\<lparr>originalPrediction := Some example_prediction,
               originalExplanation := Some baseline_explanation,
               originalData := Some default_student, isLoading := False\<rparr> \<and>
   debouncedPredict default_student False PredictFirst (Inr example_prediction)
      (Inl server_fault) initial
     = initial\<lparr>error := Some ''Failed to generate explanation''\<rparr> \<and>
   debouncedPredict default_student False ExplainFirst (Inl validation_failure)
      (Inl server_fault) initial
     = initial\<lparr>error := Some ''Failed to generate explanation''\<rparr> \<and>
   debouncedPredict default_student False PredictFirst (Inl validation_failure)
      (Inl server_fault) initial
     = initial\<lparr>error := Some ''Failed to predict student performance''\<rparr>"
proof -
  have a: "debouncedPredict default_student False PredictFirst (Inr example_prediction)
      (Inr baseline_explanation) initial
     = initial\<lparr>originalPrediction := Some example_prediction,
               originalExplanation := Some baseline_explanation,
               originalData := Some default_student, isLoading := False\<rparr>"
    using establishBaseline_atomic [where d = default_student and ord = PredictFirst
        and predictOutcome = "Inr example_prediction" and explainOutcome = "Inr baseline_explanation" and st = initial]
    by simp
  have frame: "st' = initial\<lparr>error := Some m\<rparr>"
    if "originalData st' = originalData initial"
       "originalPrediction st' = originalPrediction initial"
       "originalExplanation st' = originalExplanation initial"
       "modifiedPrediction st' = modifiedPrediction initial"
       "modifiedExplanation st' = modifiedExplanation initial"
       "error st' = Some m" "isLoading st' = False" "changedFields st' = []"
       "pendingPredict st' = None"
    for st' :: WhatIfAnalysis and m
    using that by (cases st') (simp add: initial_def)
  have rest: "isLoading (debouncedPredict d m ord po eo initial) = False \<and>
              changedFields (debouncedPredict d m ord po eo initial) = [] \<and>
              pendingPredict (debouncedPredict d m ord po eo initial) = None" for d m ord po eo
    by (cases po; cases eo) (simp_all add: debouncedPredict_cases initial_def)
  have b: "debouncedPredict default_student False PredictFirst (Inr example_prediction)
      (Inl server_fault) initial
     = initial\<lparr>error := Some ''Failed to generate explanation''\<rparr>"
    using establishBaseline_atomic [where d = default_student and ord = PredictFirst
        and predictOutcome = "Inr example_prediction" and explainOutcome = "Inl server_fault" and st = initial] rest
    by (intro frame) simp_all
  have c: "debouncedPredict default_student False ExplainFirst (Inl validation_failure)
      (Inl server_fault) initial
     = initial\<lparr>error := Some ''Failed to generate explanation''\<rparr>"
    using establishBaseline_atomic [where d = default_student and ord = ExplainFirst
        and predictOutcome = "Inl validation_failure" and explainOutcome = "Inl server_fault" and st = initial] rest
    by (intro frame) simp_all
  have d: "debouncedPredict default_student False PredictFirst (Inl validation_failure)
      (Inl server_fault) initial
     = initial\<lparr>error := Some ''Failed to predict student performance''\<rparr>"
    using establishBaseline_atomic [where d = default_student and ord = PredictFirst
        and predictOutcome = "Inl validation_failure" and explainOutcome = "Inl server_fault" and st = initial] rest
    by (intro frame) simp_all
  show ?thesis using a b c d by simp
qed

text \<open>
  C8.  When the re-evaluation of an edited record (\<open>debouncedPredict(data, true)\<close>)
  fails, the error message is stored and the modified prediction and explanation keep
  the values they had; only the error and the loading flag change.
\<close>

theorem whatif_failure_keeps_modified:
  fixes d :: StudentInput and ord :: settled_first
    and predictOutcome :: "AxiosError + PredictionResponse"
    and explainOutcome :: "AxiosError + ExplanationResponse"
    and st :: WhatIfAnalysis
  defines "st' \<equiv> debouncedPredict d True ord predictOutcome explainOutcome st"
  assumes "(\<exists>x. predictOutcome = Inl x) \<or> (\<exists>y. explainOutcome = Inl y)"
  shows "(error st' = Some ''Failed to predict student performance'' \<or>
          error st' = Some ''Failed to generate explanation'') \<and>
         modifiedPrediction st' = modifiedPrediction st \<and>
         modifiedExplanation st' = modifiedExplanation st \<and>
         st' = st\<lparr>error := error st', isLoading := False\<rparr>"
  using assms(2) unfolding st'_def
  by (cases predictOutcome; cases explainOutcome; cases ord)
     (simp_all add: debouncedPredict_cases)

theorem whatif_failure_keeps_modified_witness:
  "((\<exists>x. (Inl server_fault :: AxiosError + PredictionResponse) = Inl x)
      \<or> (\<exists>y. (Inr baseline_explanation :: AxiosError + ExplanationResponse) = Inl y)) \<and>
   error (debouncedPredict edited_student True PredictFirst (Inl server_fault)
            (Inr baseline_explanation) with_baseline)
     = Some ''Failed to predict student performance'' \<and>
   modifiedPrediction (debouncedPredict edited_student True PredictFirst (Inl server_fault)
            (Inr baseline_explanation) with_baseline) = Some example_prediction \<and>
   modifiedExplanation (debouncedPredict edited_student True PredictFirst (Inl server_fault)
            (Inr baseline_explanation) with_baseline) = Some modified_explanation"
proof -
  have h: "(\<exists>x. (Inl server_fault :: AxiosError + PredictionResponse) = Inl x)
      \<or> (\<exists>y. (Inr baseline_explanation :: AxiosError + ExplanationResponse) = Inl y)"
    by simp
  have m: "modifiedPrediction with_baseline = Some example_prediction"
          "modifiedExplanation with_baseline = Some modified_explanation"
    by (simp_all add: with_baseline_def)
  have e: "error (debouncedPredict edited_student True PredictFirst (Inl server_fault)
            (Inr baseline_explanation) with_baseline)
     \<noteq> Some ''Failed to generate explanation''"
    by (simp add: debouncedPredict_cases)
  show ?thesis
    using whatif_failure_keeps_modified [OF h, where d = edited_student and ord = PredictFirst
        and st = with_baseline] h m e
    by simp
qed

end
